theory Spec2Isabelle
  imports Complex_Main
begin

section \<open>AI Tycoon: market generator, online demand model, plan search\<close>

text \<open>
  A shallow embedding of \<^verbatim>\<open>ai.Tycoon.cpp\<close>. The C++ type \<^verbatim>\<open>double\<close> is read as
  \<^typ>\<open>real\<close> (exact arithmetic: rounding, infinities and NaN are outside the model) and
  \<^verbatim>\<open>int\<close> as \<^typ>\<open>int\<close>: sums and differences of \<^verbatim>\<open>int\<close>s are taken not to overflow (the
  inventories and unit counts of the game stay far below \<open>2^31\<close>), while every conversion
  from \<^verbatim>\<open>double\<close> to \<^verbatim>\<open>int\<close>, where a large argument does leave the range, goes through
  \<open>int_cast\<close> below. The random source \<^verbatim>\<open>rng\<close> is made explicit: every draw
  is a parameter of the function that consumes it.
\<close>

subsection \<open>Data\<close>

record Plan =
  p_price :: real
  p_adSpend :: real
  p_production :: int

record Snapshot =
  s_week :: int
  s_baseDemand :: real
  s_eventBoost :: real
  s_price :: real
  s_adSpend :: real
  s_production :: int
  s_sold :: int
  s_inventoryEnd :: int
  s_revenue :: real
  s_cost :: real
  s_profit :: real

record MarketEvent =
  name :: string
  baseShock :: real
  adShock :: real
  priceShock :: real

record Company =
  co_name :: string
  inventory :: int
  cash :: real
  unitCost :: real
  fixedCost :: real
  history :: "Snapshot list"

record AIAdvisor =
  w0 :: real
  wP :: real
  wA :: real
  wB :: real
  wI :: real
  lr :: real

record Market =
  baseDemand :: real
  priceSensitivity :: real
  adEffect :: real
  demandDrift :: real
  noiseStd :: real

subsection \<open>Utilities\<close>

text \<open>\<^verbatim>\<open>template<class T> T clampv(T v, T lo, T hi) { return max(lo, min(hi, v)); }\<close>\<close>

definition clampv :: "'a::linorder \<Rightarrow> 'a \<Rightarrow> 'a \<Rightarrow> 'a" where
  "clampv v lo hi = max lo (min hi v)"

text \<open>\<^verbatim>\<open>log1p(x)\<close> is the natural logarithm of \<open>1 + x\<close> (for \<open>x > -1\<close>).\<close>

definition log1p :: "real \<Rightarrow> real" where
  "log1p x = ln (1 + x)"

text \<open>The conversion \<^verbatim>\<open>(int)x\<close> of a \<^verbatim>\<open>double\<close> with an integral value \<open>k\<close>: the value itself when
  it fits in 32 bits. Otherwise C++ leaves the result undefined; the conversion instruction
  of x86-64 then yields \<open>INT_MIN\<close>, which is what the compiled program returns and what the
  model takes.\<close>

definition int_cast :: "int \<Rightarrow> int" where
  "int_cast k = (if - 2147483648 \<le> k \<and> k \<le> 2147483647 then k else - 2147483648)"

text \<open>C's \<^verbatim>\<open>round\<close> rounds to the nearest integer, halfway cases away from zero.\<close>

definition c_round :: "real \<Rightarrow> int" where
  "c_round x = (if 0 \<le> x then \<lfloor>x + 1/2\<rfloor> else \<lceil>x - 1/2\<rceil>)"

subsection \<open>The advisor\<close>

text \<open>The constructor \<^verbatim>\<open>AIAdvisor::AIAdvisor()\<close>: the prior weights and the learning rate.\<close>

definition AIAdvisor_init :: AIAdvisor where
  "AIAdvisor_init =
     \<lparr> w0 = 40, wP = 1, wA = 8, wB = 0.5, wI = 0.1, lr = 0.0015 \<rparr>"

definition predict :: "AIAdvisor \<Rightarrow> real \<Rightarrow> real \<Rightarrow> real \<Rightarrow> int \<Rightarrow> real \<Rightarrow> real \<Rightarrow> real" where
  "predict ai price ad baseProxy inventoryAvail eventAdMult eventPriceMult =
     (let x0 = 1;
          xP = - price * (1 + eventPriceMult);
          xA = log1p ad * (1 + eventAdMult);
          xB = baseProxy;
          xI = real_of_int inventoryAvail;
          yhat = w0 ai * x0 + wP ai * xP + wA ai * xA + wB ai * xB + wI ai * xI
      in max 0 yhat)"

definition learn ::
  "AIAdvisor \<Rightarrow> real \<Rightarrow> real \<Rightarrow> real \<Rightarrow> int \<Rightarrow> int \<Rightarrow> real \<Rightarrow> real \<Rightarrow> AIAdvisor" where
  "learn ai price ad baseProxy inventoryAvail sold eventAdMult eventPriceMult =
     (let x0 = 1;
          xP = - price * (1 + eventPriceMult);
          xA = log1p ad * (1 + eventAdMult);
          xB = baseProxy;
          xI = real_of_int inventoryAvail;
          yhat = w0 ai * x0 + wP ai * xP + wA ai * xA + wB ai * xB + wI ai * xI;
          err = real_of_int sold - yhat;
          w0' = w0 ai + lr ai * err * x0;
          wP' = wP ai + lr ai * err * xP;
          wA' = wA ai + lr ai * err * xA;
          wB' = wB ai + lr ai * err * xB;
          wI' = wI ai + lr ai * err * xI
      in ai \<lparr> w0 := clampv w0' (-200) 300,
              wP := clampv wP' (-10) 10,
              wA := clampv wA' (-40) 40,
              wB := clampv wB' (-5) 5,
              wI := clampv wI' (-0.5) 0.5 \<rparr>)"

text \<open>The arguments of one \<^verbatim>\<open>learn\<close> call, and a sequence of calls on one advisor.\<close>

record LearnCall =
  l_price :: real
  l_ad :: real
  l_baseProxy :: real
  l_inventoryAvail :: int
  l_sold :: int
  l_eventAdMult :: real
  l_eventPriceMult :: real

definition learn_call :: "AIAdvisor \<Rightarrow> LearnCall \<Rightarrow> AIAdvisor" where
  "learn_call ai a =
     learn ai (l_price a) (l_ad a) (l_baseProxy a) (l_inventoryAvail a) (l_sold a)
       (l_eventAdMult a) (l_eventPriceMult a)"

definition weights_clamped :: "AIAdvisor \<Rightarrow> bool" where
  "weights_clamped ai \<longleftrightarrow>
     -200 \<le> w0 ai \<and> w0 ai \<le> 300 \<and>
     -10 \<le> wP ai \<and> wP ai \<le> 10 \<and>
     -40 \<le> wA ai \<and> wA ai \<le> 40 \<and>
     -5 \<le> wB ai \<and> wB ai \<le> 5 \<and>
     -0.5 \<le> wI ai \<and> wI ai \<le> 0.5"

subsection \<open>Market events\<close>

text \<open>\<^verbatim>\<open>drawEvent\<close>: \<open>r\<close> is the value \<^verbatim>\<open>u(rng)\<close> drawn from the uniform distribution on
  \<open>[0,1)\<close>. The argument \<^verbatim>\<open>week\<close> is not used by the code.\<close>

definition drawEvent :: "int \<Rightarrow> real \<Rightarrow> MarketEvent" where
  "drawEvent week r =
     (if r < 0.10 then \<lparr> name = ''Viral Trend'', baseShock = 20, adShock = 0.50, priceShock = - 0.10 \<rparr>
      else if r < 0.20 then \<lparr> name = ''New Competitor'', baseShock = - 15, adShock = - 0.10, priceShock = 0.25 \<rparr>
      else if r < 0.30 then \<lparr> name = ''Supply News (positive)'', baseShock = 5, adShock = 0.05, priceShock = - 0.05 \<rparr>
      else if r < 0.40 then \<lparr> name = ''Macro Slump'', baseShock = - 10, adShock = - 0.10, priceShock = 0.15 \<rparr>
      else \<lparr> name = ''Nothing Special'', baseShock = 0, adShock = 0, priceShock = 0 \<rparr>)"

subsection \<open>Company and market\<close>

definition Company_init :: Company where
  "Company_init =
     \<lparr> co_name = ''YouCo'', inventory = 40, cash = 20000, unitCost = 8, fixedCost = 1200,
       history = [] \<rparr>"

definition Market_init :: Market where
  "Market_init =
     \<lparr> baseDemand = 60, priceSensitivity = 1.4, adEffect = 9, demandDrift = 0.2, noiseStd = 6 \<rparr>"

text \<open>\<^verbatim>\<open>Market::drift\<close>; \<open>n\<close> is the draw from the normal distribution \<open>(0, 0.8)\<close>.\<close>

definition drift :: "Market \<Rightarrow> real \<Rightarrow> Market" where
  "drift m n = m \<lparr> baseDemand := max 5 (baseDemand m + demandDrift m + n) \<rparr>"

text \<open>\<^verbatim>\<open>Market::realizeDemand\<close>; \<open>n\<close> is the draw from the normal distribution
  \<open>(0, noiseStd)\<close>. The result is \<^verbatim>\<open>(int)floor(demand + 0.5)\<close>.\<close>

definition realizeDemand :: "Market \<Rightarrow> real \<Rightarrow> real \<Rightarrow> MarketEvent \<Rightarrow> int \<Rightarrow> real \<Rightarrow> int" where
  "realizeDemand m price ad ev inventoryAvail n =
     (let priceMult = 1 + priceShock ev;
          adMult = 1 + adShock ev;
          mu = baseDemand m + baseShock ev
               - priceSensitivity m * price * priceMult
               + adEffect m * log1p ad * adMult
               + 0.08 * real_of_int inventoryAvail;
          demand = max 0 (mu + n)
      in int_cast \<lfloor>demand + 0.5\<rfloor>)"

subsection \<open>Plan search\<close>

text \<open>The body of the innermost loop of \<^verbatim>\<open>AIAdvisor::suggest\<close>: the predicted profit of
  one grid point, and the update of \<^verbatim>\<open>(bestProfit, best)\<close> by it.\<close>

definition grid_profit ::
  "AIAdvisor \<Rightarrow> Company \<Rightarrow> real \<Rightarrow> real \<Rightarrow> real \<Rightarrow> real \<Rightarrow> real \<Rightarrow> int \<Rightarrow> real" where
  "grid_profit ai c baseProxy eventAdMult eventPriceMult price ad prd =
     (let demandHat = predict ai price ad baseProxy (inventory c + prd) eventAdMult eventPriceMult;
          canSell = min (int_cast (c_round demandHat)) (inventory c + prd);
          revenue = real_of_int canSell * price;
          cost = real_of_int prd * unitCost c + ad + fixedCost c;
          profit = revenue - cost
      in profit)"

definition improve ::
  "AIAdvisor \<Rightarrow> Company \<Rightarrow> real \<Rightarrow> real \<Rightarrow> real \<Rightarrow> real \<Rightarrow> real \<Rightarrow> int \<Rightarrow> real \<times> Plan \<Rightarrow> real \<times> Plan" where
  "improve ai c baseProxy eventAdMult eventPriceMult price ad prd bb =
     (let profit = grid_profit ai c baseProxy eventAdMult eventPriceMult price ad prd
      in if profit > fst bb
         then (profit, \<lparr> p_price = price, p_adSpend = ad, p_production = prd \<rparr>)
         else bb)"

text \<open>The three nested \<^verbatim>\<open>for\<close> loops, innermost first. Each carries
  \<^verbatim>\<open>(bestProfit, best)\<close>.\<close>

function prod_loop ::
  "AIAdvisor \<Rightarrow> Company \<Rightarrow> real \<Rightarrow> real \<Rightarrow> real \<Rightarrow> real \<Rightarrow> real \<Rightarrow> int \<Rightarrow> real \<times> Plan \<Rightarrow> real \<times> Plan" where
  "prod_loop ai c baseProxy eventAdMult eventPriceMult price ad prd bb =
     (if prd \<le> 120
      then prod_loop ai c baseProxy eventAdMult eventPriceMult price ad (prd + 10)
             (improve ai c baseProxy eventAdMult eventPriceMult price ad prd bb)
      else bb)"
  by pat_completeness auto
termination
  by (relation "measure (\<lambda>(ai, c, baseProxy, eventAdMult, eventPriceMult, price, ad, prd, bb).
        nat (130 - prd))") auto

function ad_loop ::
  "AIAdvisor \<Rightarrow> Company \<Rightarrow> real \<Rightarrow> real \<Rightarrow> real \<Rightarrow> real \<Rightarrow> real \<Rightarrow> real \<times> Plan \<Rightarrow> real \<times> Plan" where
  "ad_loop ai c baseProxy eventAdMult eventPriceMult price ad bb =
     (if ad \<le> 8000
      then ad_loop ai c baseProxy eventAdMult eventPriceMult price (ad + 500)
             (prod_loop ai c baseProxy eventAdMult eventPriceMult price ad 0 bb)
      else bb)"
  by pat_completeness auto
termination
  by (relation "measure (\<lambda>(ai, c, baseProxy, eventAdMult, eventPriceMult, price, ad, bb).
        nat \<lfloor>8500 - ad\<rfloor>)") (auto simp: nat_less_iff, linarith)

function price_loop ::
  "AIAdvisor \<Rightarrow> Company \<Rightarrow> real \<Rightarrow> real \<Rightarrow> real \<Rightarrow> real \<Rightarrow> real \<times> Plan \<Rightarrow> real \<times> Plan" where
  "price_loop ai c baseProxy eventAdMult eventPriceMult price bb =
     (if price \<le> 40
      then price_loop ai c baseProxy eventAdMult eventPriceMult (price + 1)
             (ad_loop ai c baseProxy eventAdMult eventPriceMult price 0 bb)
      else bb)"
  by pat_completeness auto
termination
  by (relation "measure (\<lambda>(ai, c, baseProxy, eventAdMult, eventPriceMult, price, bb).
        nat \<lfloor>41 - price\<rfloor>)") (auto simp: nat_less_iff, linarith)

declare prod_loop.simps [simp del] ad_loop.simps [simp del] price_loop.simps [simp del]

definition suggest :: "AIAdvisor \<Rightarrow> Company \<Rightarrow> real \<Rightarrow> real \<Rightarrow> real \<Rightarrow> Plan" where
  "suggest ai c baseProxy eventAdMult eventPriceMult =
     (let bestProfit = - (10 ^ 18);
          best = \<lparr> p_price = 20, p_adSpend = 1000, p_production = 50 \<rparr>
      in snd (price_loop ai c baseProxy eventAdMult eventPriceMult 9 (bestProfit, best)))"

subsection \<open>One week of the game loop\<close>

text \<open>The proxy update at the end of the loop body of \<^verbatim>\<open>main\<close>: the summing loop over
  \<^verbatim>\<open>co.history\<close> from index \<^verbatim>\<open>start\<close>, then the blend; \<open>n\<close> is the draw from the normal
  distribution \<open>(0, 3.0)\<close>.\<close>

function sum_sold :: "Snapshot list \<Rightarrow> int \<Rightarrow> real \<Rightarrow> real" where
  "sum_sold hist i avgSales =
     (if i < int (length hist)
      then sum_sold hist (i + 1) (avgSales + real_of_int (s_sold (hist ! nat i)))
      else avgSales)"
  by pat_completeness auto
termination
  by (relation "measure (\<lambda>(hist, i, avgSales). nat (int (length hist) - i))") auto

declare sum_sold.simps [simp del]

definition updateProxy :: "Snapshot list \<Rightarrow> real \<Rightarrow> real \<Rightarrow> real" where
  "updateProxy hist baseProxy n =
     (let start = max 0 (int (length hist) - 3);
          avgSales = sum_sold hist start 0;
          avgSales' = avgSales / real_of_int (int (length hist) - start)
      in max 0 (0.70 * baseProxy + 0.30 * avgSales' + n))"

record Game =
  g_co :: Company
  g_mk :: Market
  g_ai :: AIAdvisor
  g_baseProxy :: real

text \<open>The loop body of \<^verbatim>\<open>main\<close> from "Apply production" to the proxy update, for the
  plan \<open>chosen\<close> and the event \<open>ev\<close> of the week; \<open>demandNoise\<close> and \<open>proxyNoise\<close> are the two
  normal draws it consumes.\<close>

definition playWeek :: "Game \<Rightarrow> int \<Rightarrow> MarketEvent \<Rightarrow> Plan \<Rightarrow> real \<Rightarrow> real \<Rightarrow> Game" where
  "playWeek g week ev chosen demandNoise proxyNoise =
     (let co1 = (g_co g) \<lparr> inventory := inventory (g_co g) + p_production chosen \<rparr>;
          potential = realizeDemand (g_mk g) (p_price chosen) (p_adSpend chosen) ev
                        (inventory co1) demandNoise;
          sold = min potential (inventory co1);
          co2 = co1 \<lparr> inventory := inventory co1 - sold \<rparr>;
          revenue = real_of_int sold * p_price chosen;
          cost = real_of_int (p_production chosen) * unitCost co2 + p_adSpend chosen
                 + fixedCost co2;
          profit = revenue - cost;
          co3 = co2 \<lparr> cash := cash co2 + profit \<rparr>;
          snap = \<lparr> s_week = week, s_baseDemand = baseDemand (g_mk g),
                   s_eventBoost = baseShock ev, s_price = p_price chosen,
                   s_adSpend = p_adSpend chosen, s_production = p_production chosen,
                   s_sold = sold, s_inventoryEnd = inventory co3, s_revenue = revenue,
                   s_cost = cost, s_profit = profit \<rparr>;
          co4 = co3 \<lparr> history := history co3 @ [snap] \<rparr>;
          ai' = learn (g_ai g) (p_price chosen) (p_adSpend chosen) (g_baseProxy g)
                  (inventory co4 + sold) sold (adShock ev) (priceShock ev);
          baseProxy' = updateProxy (history co4) (g_baseProxy g) proxyNoise
      in g \<lparr> g_co := co4, g_ai := ai', g_baseProxy := baseProxy' \<rparr>)"

text \<open>The state of \<^verbatim>\<open>main\<close> before the first week.\<close>

definition Game_init :: Game where
  "Game_init =
     \<lparr> g_co = Company_init, g_mk = Market_init, g_ai = AIAdvisor_init, g_baseProxy = 50 \<rparr>"

subsection \<open>Notions used in the properties\<close>

text \<open>The value \<^verbatim>\<open>floor(demand + 0.5)\<close> that \<open>realizeDemand\<close> converts to \<^verbatim>\<open>int\<close>.\<close>

definition rounded_demand :: "Market \<Rightarrow> real \<Rightarrow> real \<Rightarrow> MarketEvent \<Rightarrow> int \<Rightarrow> real \<Rightarrow> int" where
  "rounded_demand m price ad ev inventoryAvail n =
     \<lfloor>max 0 (baseDemand m + baseShock ev
              - priceSensitivity m * price * (1 + priceShock ev)
              + adEffect m * log1p ad * (1 + adShock ev)
              + 0.08 * real_of_int inventoryAvail + n) + 0.5\<rfloor>"

text \<open>The bounds of the search grid of \<open>suggest\<close>.\<close>

definition in_grid_box :: "Plan \<Rightarrow> bool" where
  "in_grid_box p \<longleftrightarrow>
     9 \<le> p_price p \<and> p_price p \<le> 40 \<and>
     0 \<le> p_adSpend p \<and> p_adSpend p \<le> 8000 \<and>
     0 \<le> p_production p \<and> p_production p \<le> 120"

text \<open>The five events of \<^verbatim>\<open>drawEvent\<close>, in the order of its tests.\<close>

definition event_table :: "MarketEvent list" where
  "event_table =
     [\<lparr> name = ''Viral Trend'', baseShock = 20, adShock = 0.50, priceShock = - 0.10 \<rparr>,
      \<lparr> name = ''New Competitor'', baseShock = - 15, adShock = - 0.10, priceShock = 0.25 \<rparr>,
      \<lparr> name = ''Supply News (positive)'', baseShock = 5, adShock = 0.05, priceShock = - 0.05 \<rparr>,
      \<lparr> name = ''Macro Slump'', baseShock = - 10, adShock = - 0.10, priceShock = 0.15 \<rparr>,
      \<lparr> name = ''Nothing Special'', baseShock = 0, adShock = 0, priceShock = 0 \<rparr>]"

text \<open>The spec's "computations with shocks omitted entirely": the formulas of \<open>predict\<close>
  and \<open>realizeDemand\<close> written without any \<open>(1 + shock)\<close> factor and without the base shock
  (the result converted to \<^verbatim>\<open>int\<close> as in the code).\<close>

definition predict_shocks_omitted :: "AIAdvisor \<Rightarrow> real \<Rightarrow> real \<Rightarrow> real \<Rightarrow> int \<Rightarrow> real" where
  "predict_shocks_omitted ai price ad baseProxy inventoryAvail =
     max 0 (w0 ai + wP ai * (- price) + wA ai * ln (1 + ad) + wB ai * baseProxy
            + wI ai * real_of_int inventoryAvail)"

definition realizeDemand_shocks_omitted :: "Market \<Rightarrow> real \<Rightarrow> real \<Rightarrow> int \<Rightarrow> real \<Rightarrow> int" where
  "realizeDemand_shocks_omitted m price ad inventoryAvail n =
     int_cast \<lfloor>max 0 (baseDemand m - priceSensitivity m * price + adEffect m * ln (1 + ad)
                      + 0.08 * real_of_int inventoryAvail + n) + 0.5\<rfloor>"

text \<open>The spec's "most recent up-to-3 sale counts" of a history and their arithmetic mean.\<close>

definition recent_sales :: "Snapshot list \<Rightarrow> int list" where
  "recent_sales hist = map s_sold (drop (length hist - 3) hist)"

definition mean :: "int list \<Rightarrow> real" where
  "mean xs = real_of_int (sum_list xs) / real (length xs)"

text \<open>The grid of \<open>suggest\<close> as the claim describes it: prices \<open>9, 10, \<dots>, 40\<close>, ad spends
  \<open>0, 500, \<dots>, 8000\<close>, productions \<open>0, 10, \<dots>, 120\<close>, enumerated price first, then ad spend,
  then production, each ascending.\<close>

definition grid_prices :: "real list" where
  "grid_prices = map real_of_int [9..40]"

definition grid_ads :: "real list" where
  "grid_ads = map (\<lambda>k. 500 * real_of_int k) [0..16]"

definition grid_prods :: "int list" where
  "grid_prods = map (\<lambda>k. 10 * k) [0..12]"

definition grid :: "Plan list" where
  "grid = concat (map (\<lambda>price. concat (map (\<lambda>ad.
            map (\<lambda>prd. \<lparr> p_price = price, p_adSpend = ad, p_production = prd \<rparr>) grid_prods)
            grid_ads)) grid_prices)"

text \<open>\<open>p\<close> comes before \<open>q\<close> in the order "price ascending, then ad spend ascending, then
  production ascending".\<close>

definition enumerated_before :: "Plan \<Rightarrow> Plan \<Rightarrow> bool" where
  "enumerated_before p q \<longleftrightarrow>
     p_price p < p_price q
     \<or> (p_price p = p_price q
        \<and> (p_adSpend p < p_adSpend q
           \<or> (p_adSpend p = p_adSpend q \<and> p_production p < p_production q)))"

text \<open>The profit the loop body computes for a plan, and the loop body's update by a plan.\<close>

definition plan_profit :: "AIAdvisor \<Rightarrow> Company \<Rightarrow> real \<Rightarrow> real \<Rightarrow> real \<Rightarrow> Plan \<Rightarrow> real" where
  "plan_profit ai c baseProxy eventAdMult eventPriceMult p =
     grid_profit ai c baseProxy eventAdMult eventPriceMult (p_price p) (p_adSpend p)
       (p_production p)"

definition improve_by ::
  "AIAdvisor \<Rightarrow> Company \<Rightarrow> real \<Rightarrow> real \<Rightarrow> real \<Rightarrow> real \<times> Plan \<Rightarrow> Plan \<Rightarrow> real \<times> Plan" where
  "improve_by ai c baseProxy eventAdMult eventPriceMult bb p =
     improve ai c baseProxy eventAdMult eventPriceMult (p_price p) (p_adSpend p)
       (p_production p) bb"

text \<open>The company of \<open>main\<close> with a fixed cost so large that every profit lies below the
  initial \<open>bestProfit = -1e18\<close> of \<open>suggest\<close>.\<close>

definition Company_costly :: Company where
  "Company_costly = Company_init \<lparr> fixedCost := 10 ^ 30 \<rparr>"

section \<open>Properties\<close>

lemma clampv_bounds: "lo \<le> hi \<Longrightarrow> lo \<le> clampv v lo hi \<and> clampv v lo hi \<le> hi"
  by (simp add: clampv_def)

lemma clampv_real_bounds:
  fixes v lo hi :: real
  assumes "lo \<le> hi"
  shows "lo \<le> clampv v lo hi" and "clampv v lo hi \<le> hi"
  using assms by (simp_all add: clampv_def)

lemma learn_weights_clamped:
  "weights_clamped (learn ai price ad baseProxy inventoryAvail sold eventAdMult eventPriceMult)"
proof -
  have half: "(- 0.5 :: real) \<le> 0.5" by simp
  show ?thesis
    unfolding weights_clamped_def learn_def Let_def
    by (simp add: clampv_real_bounds clampv_real_bounds [OF half] del: divide_le_eq_numeral1 le_divide_eq_numeral1)
qed

text \<open>
  C3. After every call of \<open>learn\<close>, whatever its arguments and whatever the weights before,
  each weight lies in its clamp range; so it does after every non-empty sequence of calls
  (\<open>calls @ [a]\<close> ranges over all of them, each prefix of a sequence being one).
\<close>

theorem learn_keeps_weights_clamped:
  "weights_clamped (learn ai price ad baseProxy inventoryAvail sold eventAdMult eventPriceMult)
   \<and> weights_clamped (foldl learn_call ai (calls @ [a]))"
  by (simp add: learn_call_def learn_weights_clamped)

subsection \<open>The suggested plan lies in the grid's bounds\<close>

lemma improve_box:
  assumes "9 \<le> price" "price \<le> 40" "0 \<le> ad" "ad \<le> 8000" "0 \<le> prd" "prd \<le> 120"
    and "in_grid_box (snd bb)"
  shows "in_grid_box (snd (improve ai c baseProxy eventAdMult eventPriceMult price ad prd bb))"
  using assms by (simp add: improve_def Let_def in_grid_box_def)

lemma prod_loop_box:
  "0 \<le> prd \<Longrightarrow> 9 \<le> price \<Longrightarrow> price \<le> 40 \<Longrightarrow> 0 \<le> ad \<Longrightarrow> ad \<le> 8000 \<Longrightarrow>
   in_grid_box (snd bb) \<Longrightarrow>
   in_grid_box (snd (prod_loop ai c baseProxy eventAdMult eventPriceMult price ad prd bb))"
proof (induction ai c baseProxy eventAdMult eventPriceMult price ad prd bb rule: prod_loop.induct)
  case (1 ai c baseProxy eventAdMult eventPriceMult price ad prd bb)
  show ?case
  proof (cases "prd \<le> 120")
    case True
    have "in_grid_box (snd (improve ai c baseProxy eventAdMult eventPriceMult price ad prd bb))"
      using 1 True by (intro improve_box) auto
    with 1 True show ?thesis
      by (subst prod_loop.simps) simp
  next
    case False
    with 1 show ?thesis by (subst prod_loop.simps) simp
  qed
qed

lemma ad_loop_box:
  "0 \<le> ad \<Longrightarrow> 9 \<le> price \<Longrightarrow> price \<le> 40 \<Longrightarrow> in_grid_box (snd bb) \<Longrightarrow>
   in_grid_box (snd (ad_loop ai c baseProxy eventAdMult eventPriceMult price ad bb))"
proof (induction ai c baseProxy eventAdMult eventPriceMult price ad bb rule: ad_loop.induct)
  case (1 ai c baseProxy eventAdMult eventPriceMult price ad bb)
  show ?case
  proof (cases "ad \<le> 8000")
    case True
    have "in_grid_box (snd (prod_loop ai c baseProxy eventAdMult eventPriceMult price ad 0 bb))"
      using 1 True by (intro prod_loop_box) auto
    with 1 True show ?thesis
      by (subst ad_loop.simps) simp
  next
    case False
    with 1 show ?thesis by (subst ad_loop.simps) simp
  qed
qed

lemma price_loop_box:
  "9 \<le> price \<Longrightarrow> in_grid_box (snd bb) \<Longrightarrow>
   in_grid_box (snd (price_loop ai c baseProxy eventAdMult eventPriceMult price bb))"
proof (induction ai c baseProxy eventAdMult eventPriceMult price bb rule: price_loop.induct)
  case (1 ai c baseProxy eventAdMult eventPriceMult price bb)
  show ?case
  proof (cases "price \<le> 40")
    case True
    have "in_grid_box (snd (ad_loop ai c baseProxy eventAdMult eventPriceMult price 0 bb))"
      using 1 True by (intro ad_loop_box) auto
    with 1 True show ?thesis
      by (subst price_loop.simps) simp
  next
    case False
    with 1 show ?thesis by (subst price_loop.simps) simp
  qed
qed

text \<open>
  C5. For every advisor, company, proxy and event multipliers, the plan returned by
  \<open>suggest\<close> has its price in \<open>[9,40]\<close>, its ad spend in \<open>[0,8000]\<close> and its production in
  \<open>[0,120]\<close>. (The initial plan \<open>(20, 1000, 50)\<close>, returned when no grid point beats the
  initial \<open>bestProfit\<close>, lies in these bounds too.)
\<close>

theorem suggest_within_grid_bounds:
  "in_grid_box (suggest ai c baseProxy eventAdMult eventPriceMult)"
  unfolding suggest_def Let_def
  by (rule price_loop_box) (simp_all add: in_grid_box_def)

subsection \<open>Realized demand and sales\<close>

lemma int_cast_in_range: "- 2147483648 \<le> k \<Longrightarrow> k \<le> 2147483647 \<Longrightarrow> int_cast k = k"
  by (simp add: int_cast_def)

lemma realizeDemand_rounded:
  "realizeDemand m price ad ev inventoryAvail n
     = int_cast (rounded_demand m price ad ev inventoryAvail n)"
  by (simp add: realizeDemand_def rounded_demand_def Let_def)

lemma rounded_demand_nonneg: "0 \<le> rounded_demand m price ad ev inventoryAvail n"
  unfolding rounded_demand_def by (simp add: max_def)

lemma realizeDemand_in_range:
  assumes "rounded_demand m price ad ev inventoryAvail n \<le> 2147483647"
  shows "realizeDemand m price ad ev inventoryAvail n
           = rounded_demand m price ad ev inventoryAvail n"
    and "0 \<le> realizeDemand m price ad ev inventoryAvail n"
proof -
  have "- 2147483648 \<le> rounded_demand m price ad ev inventoryAvail n"
    using rounded_demand_nonneg [of m price ad ev inventoryAvail n] by linarith
  then show "realizeDemand m price ad ev inventoryAvail n
           = rounded_demand m price ad ev inventoryAvail n"
    using assms by (simp add: realizeDemand_rounded int_cast_in_range)
  then show "0 \<le> realizeDemand m price ad ev inventoryAvail n"
    using rounded_demand_nonneg [of m price ad ev inventoryAvail n] by simp
qed

text \<open>
  C4 (amended). Whenever the rounded demand \<open>floor(max(0, mu + noise) + 0.5)\<close> fits in an
  \<^verbatim>\<open>int\<close>, \<open>realizeDemand\<close> returns it, a non-negative integer. In a week that starts with
  inventory \<open>I \<ge> 0\<close> and produces \<open>P \<ge> 0\<close>, with \<open>I + P\<close> within the range of \<^verbatim>\<open>int\<close> and the
  week's rounded demand fitting too, the units sold (as recorded in the week's snapshot) are
  \<open>min (realizeDemand \<dots>) (I + P)\<close>, lie between \<open>0\<close> and \<open>I + P\<close>, and the inventory left,
  \<open>I + P - sold\<close>, is not negative.
\<close>

theorem realizeDemand_nonneg_and_sales_capped:
  assumes "0 \<le> inventory (g_co g)" and "0 \<le> p_production chosen"
    and "inventory (g_co g) + p_production chosen \<le> 2147483647"
    and "rounded_demand (g_mk g) (p_price chosen) (p_adSpend chosen) ev
           (inventory (g_co g) + p_production chosen) demandNoise \<le> 2147483647"
    and "rounded_demand m price ad ev inventoryAvail n \<le> 2147483647"
  shows "0 \<le> realizeDemand m price ad ev inventoryAvail n
     \<and> realizeDemand m price ad ev inventoryAvail n
         = rounded_demand m price ad ev inventoryAvail n
     \<and> (let avail = inventory (g_co g) + p_production chosen;
             potential = realizeDemand (g_mk g) (p_price chosen) (p_adSpend chosen) ev avail
                           demandNoise;
             g' = playWeek g week ev chosen demandNoise proxyNoise;
             sold = s_sold (last (history (g_co g')))
         in 0 \<le> potential \<and> sold = min potential avail \<and> 0 \<le> sold \<and> sold \<le> avail
            \<and> inventory (g_co g') = avail - sold \<and> 0 \<le> inventory (g_co g'))"
  using assms(1,2) realizeDemand_in_range(2) [OF assms(4)] realizeDemand_in_range [OF assms(5)]
  by (simp add: playWeek_def Let_def)

lemma rounded_demand_first_week:
  "rounded_demand Market_init 20 0 (drawEvent 1 (1 / 2)) 90 0 = 39"
  by (simp add: rounded_demand_def Market_init_def drawEvent_def log1p_def)

lemma realizeDemand_first_week:
  "realizeDemand Market_init 20 0 (drawEvent 1 (1 / 2)) 90 0 = 39"
  by (simp add: realizeDemand_rounded rounded_demand_first_week int_cast_def)

theorem realizeDemand_nonneg_and_sales_capped_witness:
  "0 \<le> inventory (g_co Game_init)
   \<and> 0 \<le> p_production \<lparr> p_price = 20, p_adSpend = 0, p_production = 50 \<rparr>
   \<and> inventory (g_co Game_init)
       + p_production \<lparr> p_price = 20, p_adSpend = 0, p_production = 50 \<rparr> \<le> 2147483647
   \<and> rounded_demand Market_init 20 0 (drawEvent 1 (1 / 2)) 90 0 \<le> 2147483647
   \<and> realizeDemand Market_init 20 0 (drawEvent 1 (1 / 2)) 90 0 = 39
   \<and> s_sold (last (history (g_co (playWeek Game_init 1 (drawEvent 1 (1 / 2))
        \<lparr> p_price = 20, p_adSpend = 0, p_production = 50 \<rparr> 0 0)))) = 39
   \<and> inventory (g_co (playWeek Game_init 1 (drawEvent 1 (1 / 2))
        \<lparr> p_price = 20, p_adSpend = 0, p_production = 50 \<rparr> 0 0)) = 51"
proof -
  have g: "inventory (g_co Game_init) = 40" "g_mk Game_init = Market_init"
    by (simp_all add: Game_init_def Company_init_def)
  show ?thesis
    using realizeDemand_nonneg_and_sales_capped [where g = Game_init
        and chosen = "\<lparr> p_price = 20, p_adSpend = 0, p_production = 50 \<rparr>"
        and m = Market_init and price = 20 and ad = 0 and ev = "drawEvent 1 (1 / 2)"
        and inventoryAvail = 90 and n = 0 and week = 1 and demandNoise = 0 and proxyNoise = 0]
    by (simp add: g realizeDemand_first_week rounded_demand_first_week Let_def)
qed

text \<open>Without the proviso the claim fails: at price \<open>-1e10\<close> the rounded demand is
  \<open>14000000067\<close>, beyond the range of \<^verbatim>\<open>int\<close>, and \<open>realizeDemand\<close> returns \<open>INT_MIN\<close>.\<close>

lemma rounded_demand_huge:
  "rounded_demand Market_init (- 10000000000) 0 (drawEvent 1 (1 / 2)) 90 0 = 14000000067"
  by (simp add: rounded_demand_def Market_init_def drawEvent_def log1p_def)

theorem realizeDemand_negative_when_cast_overflows:
  "realizeDemand Market_init (- 10000000000) 0 (drawEvent 1 (1 / 2)) 90 0 = - 2147483648
   \<and> \<not> 0 \<le> realizeDemand Market_init (- 10000000000) 0 (drawEvent 1 (1 / 2)) 90 0"
  by (simp add: realizeDemand_rounded rounded_demand_huge int_cast_def)

subsection \<open>What the advisor learns from\<close>

text \<open>
  C10. In every week the \<open>inventoryAvail\<close> argument of \<open>learn\<close>, written in the code as the
  end-of-week inventory plus the units sold, equals the inventory after production and
  before sales, which is the availability passed to \<open>realizeDemand\<close>: the advisor of the next
  state is \<open>learn\<close> applied to that pre-sale availability and the units sold.
\<close>

theorem learn_gets_presale_availability:
  "(let avail = inventory (g_co g) + p_production chosen;
        sold = min (realizeDemand (g_mk g) (p_price chosen) (p_adSpend chosen) ev avail
                      demandNoise) avail;
        g' = playWeek g week ev chosen demandNoise proxyNoise
    in inventory (g_co g') + sold = avail
       \<and> g_ai g' = learn (g_ai g) (p_price chosen) (p_adSpend chosen) (g_baseProxy g) avail sold
                     (adShock ev) (priceShock ev))"
  by (simp add: playWeek_def Let_def)

subsection \<open>Market events\<close>

lemma drawEvent_cases:
  "drawEvent week r = event_table ! 0 \<longleftrightarrow> r < 1/10"
  "drawEvent week r = event_table ! 1 \<longleftrightarrow> 1/10 \<le> r \<and> r < 2/10"
  "drawEvent week r = event_table ! 2 \<longleftrightarrow> 2/10 \<le> r \<and> r < 3/10"
  "drawEvent week r = event_table ! 3 \<longleftrightarrow> 3/10 \<le> r \<and> r < 4/10"
  "drawEvent week r = event_table ! 4 \<longleftrightarrow> 4/10 \<le> r"
  by (auto simp: drawEvent_def event_table_def)

text \<open>
  C7. \<open>drawEvent\<close> maps the uniform draw \<open>r\<close> to exactly one of five pairwise distinct events:
  the first for \<open>r < 0.10\<close>, the second for \<open>0.10 \<le> r < 0.20\<close>, the third for
  \<open>0.20 \<le> r < 0.30\<close>, the fourth for \<open>0.30 \<le> r < 0.40\<close> and the neutral one otherwise. On
  \<open>[0,1)\<close> the draws giving each event form an interval of length \<open>0.1\<close>, \<open>0.1\<close>, \<open>0.1\<close>, \<open>0.1\<close>
  and \<open>0.6\<close>, which is its probability under the uniform distribution.
\<close>

theorem drawEvent_thresholds:
  "distinct event_table \<and> length event_table = 5
   \<and> drawEvent week r \<in> set event_table
   \<and> {r. 0 \<le> r \<and> r < 1 \<and> drawEvent week r = event_table ! 0} = {0 ..< 1/10}
   \<and> {r. 0 \<le> r \<and> r < 1 \<and> drawEvent week r = event_table ! 1} = {1/10 ..< 2/10}
   \<and> {r. 0 \<le> r \<and> r < 1 \<and> drawEvent week r = event_table ! 2} = {2/10 ..< 3/10}
   \<and> {r. 0 \<le> r \<and> r < 1 \<and> drawEvent week r = event_table ! 3} = {3/10 ..< 4/10}
   \<and> {r. 0 \<le> r \<and> r < 1 \<and> drawEvent week r = event_table ! 4} = {4/10 ..< 1}"
proof -
  have d: "distinct event_table" "length event_table = 5"
    by (simp_all add: event_table_def)
  have m: "drawEvent week r \<in> set event_table"
    by (simp add: drawEvent_def event_table_def)
  show ?thesis
    unfolding drawEvent_cases using d m by auto
qed

subsection \<open>Neutral events\<close>

text \<open>
  C9. With both event multipliers \<open>0\<close>, \<open>predict\<close> equals the linear combination without the
  \<open>(1 + shock)\<close> factors; with an event whose three shocks are \<open>0\<close> (whatever its name, and
  in particular the neutral event that \<open>drawEvent\<close> returns), \<open>realizeDemand\<close> equals, for
  the same noise draw, the computation without the shock terms.
\<close>

theorem neutral_event_omits_shocks:
  "predict ai price ad baseProxy inventoryAvail 0 0
     = predict_shocks_omitted ai price ad baseProxy inventoryAvail
   \<and> realizeDemand m price ad \<lparr> name = nm, baseShock = 0, adShock = 0, priceShock = 0 \<rparr>
        inventoryAvail n
     = realizeDemand_shocks_omitted m price ad inventoryAvail n
   \<and> realizeDemand m price ad (drawEvent week (1 / 2)) inventoryAvail n
     = realizeDemand_shocks_omitted m price ad inventoryAvail n"
  by (simp add: predict_def predict_shocks_omitted_def realizeDemand_def
      realizeDemand_shocks_omitted_def log1p_def Let_def drawEvent_def)

subsection \<open>The public proxy\<close>

lemma sum_sold_eq:
  "0 \<le> i \<Longrightarrow>
   sum_sold hist i avgSales = avgSales + real_of_int (sum_list (map s_sold (drop (nat i) hist)))"
proof (induction hist i avgSales rule: sum_sold.induct)
  case (1 hist i avgSales)
  show ?case
  proof (cases "i < int (length hist)")
    case True
    then have lt: "nat i < length hist" using 1(2) by linarith
    have nx: "nat (i + 1) = Suc (nat i)" using 1(2) by linarith
    have "drop (nat i) hist = hist ! nat i # drop (Suc (nat i)) hist"
      using lt by (simp add: Cons_nth_drop_Suc)
    then show ?thesis
      using 1 True by (subst sum_sold.simps) (simp add: nx)
  next
    case False
    then show ?thesis using 1(2) by (subst sum_sold.simps) simp
  qed
qed

text \<open>
  C8. For a non-empty history (in \<open>main\<close> the week's snapshot has just been appended), the
  proxy update is \<open>max 0 (0.7 * proxy + 0.3 * mean + n)\<close>, where \<open>mean\<close> is the arithmetic mean
  of the last \<open>min 3 (length history)\<close> sale counts and \<open>n\<close> the noise draw; the result is
  never negative; and it is the proxy of the next state of the game. (That \<open>n\<close> is drawn
  from a normal distribution with mean \<open>0\<close> and deviation \<open>3.0\<close> is a fact of the random
  source, which this model takes as an input.)
\<close>

theorem updateProxy_blend_nonneg:
  assumes "hist \<noteq> []"
  shows "updateProxy hist baseProxy n
           = max 0 (0.7 * baseProxy + 0.3 * mean (recent_sales hist) + n)
     \<and> length (recent_sales hist) = min 3 (length hist)
     \<and> 0 \<le> updateProxy hist baseProxy n
     \<and> g_baseProxy (playWeek g week ev chosen demandNoise proxyNoise)
           = updateProxy (history (g_co (playWeek g week ev chosen demandNoise proxyNoise)))
               (g_baseProxy g) proxyNoise"
proof -
  have st: "nat (max 0 (int (length hist) - 3)) = length hist - 3" by linarith
  have ln: "int (length hist) - max 0 (int (length hist) - 3) = int (min 3 (length hist))"
    by linarith
  have len: "length (recent_sales hist) = min 3 (length hist)"
    by (simp add: recent_sales_def)
  have "updateProxy hist baseProxy n
           = max 0 (0.7 * baseProxy + 0.3 * mean (recent_sales hist) + n)"
    unfolding updateProxy_def Let_def mean_def len
    by (simp add: sum_sold_eq st ln recent_sales_def)
  moreover have "0 \<le> updateProxy hist baseProxy n"
    by (simp add: updateProxy_def Let_def)
  moreover have "g_baseProxy (playWeek g week ev chosen demandNoise proxyNoise)
           = updateProxy (history (g_co (playWeek g week ev chosen demandNoise proxyNoise)))
               (g_baseProxy g) proxyNoise"
    by (simp add: playWeek_def Let_def)
  ultimately show ?thesis using len by simp
qed

lemma first_week_sales:
  "map s_sold (history (g_co (playWeek Game_init 1 (drawEvent 1 (1 / 2))
        \<lparr> p_price = 20, p_adSpend = 0, p_production = 50 \<rparr> 0 0))) = [39]"
  by (simp add: playWeek_def Let_def Game_init_def Company_init_def realizeDemand_first_week)

theorem updateProxy_blend_nonneg_witness:
  "history (g_co (playWeek Game_init 1 (drawEvent 1 (1 / 2))
        \<lparr> p_price = 20, p_adSpend = 0, p_production = 50 \<rparr> 0 0)) \<noteq> []
   \<and> g_baseProxy (playWeek Game_init 1 (drawEvent 1 (1 / 2))
        \<lparr> p_price = 20, p_adSpend = 0, p_production = 50 \<rparr> 0 0) = 467 / 10"
proof -
  let ?g = "playWeek Game_init 1 (drawEvent 1 (1 / 2))
        \<lparr> p_price = 20, p_adSpend = 0, p_production = 50 \<rparr> 0 0"
  have ne: "history (g_co ?g) \<noteq> []" using first_week_sales by auto
  have len: "length (history (g_co ?g)) = 1"
    using arg_cong [OF first_week_sales, of length] by simp
  have rs: "recent_sales (history (g_co ?g)) = [39]"
    by (simp add: recent_sales_def len first_week_sales)
  have bp: "g_baseProxy Game_init = 50" by (simp add: Game_init_def)
  show ?thesis
    using updateProxy_blend_nonneg [OF ne, where baseProxy = 50 and n = 0 and g = Game_init
        and week = 1 and ev = "drawEvent 1 (1 / 2)"
        and chosen = "\<lparr> p_price = 20, p_adSpend = 0, p_production = 50 \<rparr>"
        and demandNoise = 0 and proxyNoise = 0]
    by (simp add: ne rs bp mean_def)
qed

subsection \<open>The scenario at the prior weights\<close>

text \<open>Bounds of \<open>exp\<close> by its Taylor polynomial, and from them \<open>6.9075 < ln 1001 < 6.91\<close>.\<close>

lemma exp_taylor_bounds:
  fixes x :: real
  assumes "0 \<le> x" and "x \<le> 1"
  shows "(\<Sum>m<n. x ^ m / fact m) \<le> exp x"
    and "exp x \<le> (\<Sum>m<n. x ^ m / fact m) + 3 * x ^ n / fact n"
proof -
  obtain t where t: "\<bar>t\<bar> \<le> \<bar>x\<bar>"
    and e: "exp x = (\<Sum>m<n. x ^ m / fact m) + (exp t / fact n) * x ^ n"
    using Maclaurin_exp_le [of x n] by blast
  have pw: "0 \<le> x ^ n / fact n" using assms by simp
  have "0 \<le> exp t * (x ^ n / fact n)"
    by (rule mult_nonneg_nonneg [OF _ pw]) simp
  then show "(\<Sum>m<n. x ^ m / fact m) \<le> exp x" using e by simp
  have "t \<le> 1" using t assms by linarith
  then have "exp t \<le> exp 1" by simp
  then have "exp t \<le> 3" using exp_le by linarith
  then have "exp t * (x ^ n / fact n) \<le> 3 * (x ^ n / fact n)"
    using pw by (rule mult_right_mono)
  then show "exp x \<le> (\<Sum>m<n. x ^ m / fact m) + 3 * x ^ n / fact n" using e by simp
qed

lemma exp_2763_4000: "exp (2763 / 4000 :: real) < 19953 / 10000"
proof -
  have "exp (2763 / 4000 :: real)
        \<le> (\<Sum>m<8. (2763 / 4000) ^ m / fact m) + 3 * (2763 / 4000) ^ 8 / fact 8"
    by (rule exp_taylor_bounds) simp_all
  also have "\<dots> < 19953 / 10000"
    by (simp add: lessThan_nat_numeral lessThan_Suc fact_numeral power_divide)
  finally show ?thesis .
qed

lemma exp_691_1000: "19956 / 10000 < exp (691 / 1000 :: real)"
proof -
  have "19956 / 10000 < (\<Sum>m<8. (691 / 1000 :: real) ^ m / fact m)"
    by (simp add: lessThan_nat_numeral lessThan_Suc fact_numeral power_divide)
  also have "\<dots> \<le> exp (691 / 1000)"
    by (rule exp_taylor_bounds) simp_all
  finally show ?thesis .
qed

lemma ln_1001_bounds:
  "27630 / 4000 < ln (1001 :: real)" "ln (1001 :: real) < 6910 / 1000"
proof -
  have "exp (10 * (2763 / 4000 :: real)) = exp (2763 / 4000) ^ 10"
    using exp_of_nat_mult [of 10 "2763 / 4000 :: real"] by simp
  also have "\<dots> < (19953 / 10000) ^ 10"
    by (rule power_strict_mono [OF exp_2763_4000]) simp_all
  also have "\<dots> < 1001" by (simp add: power_divide)
  finally have "exp (27630 / 4000 :: real) < 1001" by simp
  then have "exp (27630 / 4000 :: real) < exp (ln 1001)" by simp
  then show "27630 / 4000 < ln (1001 :: real)" by (simp only: exp_less_cancel_iff)
  have "(1001 :: real) < (19956 / 10000) ^ 10" by (simp add: power_divide)
  also have "\<dots> < exp (691 / 1000) ^ 10"
    by (rule power_strict_mono [OF exp_691_1000]) simp_all
  also have "\<dots> = exp (10 * (691 / 1000 :: real))"
    using exp_of_nat_mult [of 10 "691 / 1000 :: real"] by simp
  finally have "exp (ln 1001) < exp (6910 / 1000 :: real)" by simp
  then show "ln (1001 :: real) < 6910 / 1000" by (simp only: exp_less_cancel_iff)
qed

lemma abs_diff_less:
  fixes x c e :: real
  shows "c - e < x \<Longrightarrow> x < c + e \<Longrightarrow> \<bar>x - c\<bar> < e"
  by linarith

lemma predict_prior_scenario:
  "predict AIAdvisor_init 20 1000 50 60 0 0 = 51 + 8 * ln 1001"
proof -
  have "0 \<le> 51 + 8 * ln (1001 :: real)" using ln_1001_bounds(1) by linarith
  then show ?thesis
    by (simp add: predict_def AIAdvisor_init_def log1p_def Let_def)
qed

text \<open>
  C1 (amended). With the prior weights, \<open>predict\<close> at price \<open>20\<close>, ad spend \<open>1000\<close>, proxy
  \<open>50\<close>, availability \<open>60\<close> and both multipliers \<open>0\<close> equals
  \<open>max 0 (40 + 1 * (-20) + 8 * ln 1001 + 0.5 * 50 + 0.1 * 60)\<close>, and this value is \<open>106.27\<close>
  to within \<open>0.01\<close>.
\<close>

theorem predict_prior_scenario_value:
  "predict AIAdvisor_init 20 1000 50 60 0 0
     = max 0 (40 + 1 * (- 20) + 8 * ln 1001 + 0.5 * 50 + 0.1 * 60)
   \<and> \<bar>predict AIAdvisor_init 20 1000 50 60 0 0 - 106.27\<bar> < 0.01"
proof -
  have "\<bar>51 + 8 * ln (1001 :: real) - 106.27\<bar> < 0.01"
    by (rule abs_diff_less) (use ln_1001_bounds in simp_all)
  moreover have "max 0 (40 + 1 * (- 20) + 8 * ln 1001 + 0.5 * 50 + 0.1 * 60)
      = 51 + 8 * ln (1001 :: real)"
    using ln_1001_bounds(1) by simp
  ultimately show ?thesis by (simp only: predict_prior_scenario)
qed

text \<open>The value differs from the \<open>100.4\<close> of the claim by more than \<open>5\<close>.\<close>

theorem predict_prior_scenario_not_100_4:
  "\<not> \<bar>predict AIAdvisor_init 20 1000 50 60 0 0 - 100.4\<bar> \<le> 5"
  using ln_1001_bounds(1) by (simp add: predict_prior_scenario)

lemma AIAdvisor_init_w0_lr: "w0 AIAdvisor_init = 40" "lr AIAdvisor_init = 15 / 10000"
  by (simp_all add: AIAdvisor_init_def)

lemma ln_1001_rough: "6 < ln (1001 :: real)" "ln (1001 :: real) < 7"
  using ln_1001_bounds by simp_all

lemma w0_step_unclamped:
  fixes L :: real
  assumes "6 < L" and "L < 7"
  shows "clampv (40 + 15 / 10000 * (80 - (51 + 8 * L))) (- 200) 300
           = 40 + 15 / 10000 * (80 - (51 + 8 * L))"
    and "40 + 15 / 10000 * (80 - (51 + 8 * L)) < 40"
  using assms by (simp_all add: clampv_def field_simps)

lemma learn_prior_scenario_w0:
  "w0 (learn AIAdvisor_init 20 1000 50 60 80 0 0) = 40 + 15 / 10000 * (80 - (51 + 8 * ln 1001))"
proof -
  have "w0 (learn AIAdvisor_init 20 1000 50 60 80 0 0)
      = clampv (40 + 15 / 10000 * (80 - (51 + 8 * ln 1001))) (- 200) 300"
    by (simp add: learn_def AIAdvisor_init_def log1p_def Let_def)
  then show ?thesis
    by (simp only: w0_step_unclamped(1) [OF ln_1001_rough])
qed

text \<open>
  C2 (amended). From the prior weights, \<open>learn\<close> at price \<open>20\<close>, ad spend \<open>1000\<close>, proxy
  \<open>50\<close>, availability \<open>60\<close>, \<open>80\<close> units sold and both multipliers \<open>0\<close> has a negative error
  \<open>80 - yhat\<close> (the prediction is about \<open>106.27\<close>), and moves \<open>w0\<close> downward, by exactly
  \<open>lr * error * 1\<close>: the clamp does not bind.
\<close>

theorem learn_prior_scenario_moves_w0_down:
  "80 - (40 + 1 * (- 20) + 8 * ln 1001 + 0.5 * 50 + 0.1 * 60) < (0 :: real)
   \<and> 80 - (40 + 1 * (- 20) + 8 * ln 1001 + 0.5 * 50 + 0.1 * 60)
       = 80 - predict AIAdvisor_init 20 1000 50 60 0 0
   \<and> w0 (learn AIAdvisor_init 20 1000 50 60 80 0 0)
       = w0 AIAdvisor_init
         + lr AIAdvisor_init * (80 - (40 + 1 * (- 20) + 8 * ln 1001 + 0.5 * 50 + 0.1 * 60)) * 1
   \<and> w0 (learn AIAdvisor_init 20 1000 50 60 80 0 0) < w0 AIAdvisor_init"
proof -
  have e: "40 + 1 * (- 20) + 8 * ln 1001 + 0.5 * 50 + 0.1 * 60 = 51 + 8 * ln (1001 :: real)"
    by simp
  have neg: "80 - (51 + 8 * ln (1001 :: real)) < 0" using ln_1001_bounds by linarith
  have "40 + 15 / 10000 * (80 - (51 + 8 * ln (1001 :: real))) < 40"
    by (rule w0_step_unclamped(2) [OF ln_1001_rough])
  then have "w0 (learn AIAdvisor_init 20 1000 50 60 80 0 0) < w0 AIAdvisor_init"
    by (simp only: learn_prior_scenario_w0 AIAdvisor_init_w0_lr)
  moreover have "w0 (learn AIAdvisor_init 20 1000 50 60 80 0 0)
       = w0 AIAdvisor_init + lr AIAdvisor_init * (80 - (51 + 8 * ln 1001)) * 1"
    by (simp only: learn_prior_scenario_w0 AIAdvisor_init_w0_lr mult_1_right)
  ultimately show ?thesis
    unfolding e predict_prior_scenario using neg by simp
qed

text \<open>In this scenario \<open>w0\<close> does not move upward.\<close>

theorem learn_prior_scenario_w0_not_up:
  "\<not> w0 AIAdvisor_init < w0 (learn AIAdvisor_init 20 1000 50 60 80 0 0)"
proof -
  have "40 + 15 / 10000 * (80 - (51 + 8 * ln (1001 :: real))) < 40"
    by (rule w0_step_unclamped(2) [OF ln_1001_rough])
  then show ?thesis
    by (simp only: learn_prior_scenario_w0 AIAdvisor_init_w0_lr)
qed

subsection \<open>Ties in the plan search\<close>

text \<open>The loops of \<open>suggest\<close> are a left fold of the loop body over \<open>grid\<close>.\<close>

lemma improve_by_eq:
  "improve_by ai c baseProxy eventAdMult eventPriceMult bb p =
     (if fst bb < plan_profit ai c baseProxy eventAdMult eventPriceMult p
      then (plan_profit ai c baseProxy eventAdMult eventPriceMult p, p) else bb)"
  by (simp add: improve_by_def improve_def plan_profit_def Let_def)

lemma improve_as_improve_by:
  "improve ai c baseProxy eventAdMult eventPriceMult price ad prd bb =
     improve_by ai c baseProxy eventAdMult eventPriceMult bb
       \<lparr> p_price = price, p_adSpend = ad, p_production = prd \<rparr>"
  by (simp add: improve_by_def)

lemma grid_prods_list:
  "grid_prods = [0, 10, 20, 30, 40, 50, 60, 70, 80, 90, 100, 110, 120]"
  by (simp add: grid_prods_def upto_rec1)

lemma grid_ads_list:
  "grid_ads = [0, 500, 1000, 1500, 2000, 2500, 3000, 3500, 4000, 4500, 5000, 5500, 6000,
               6500, 7000, 7500, 8000]"
  by (simp add: grid_ads_def upto_rec1)

lemma grid_prices_list:
  "grid_prices = [9, 10, 11, 12, 13, 14, 15, 16, 17, 18, 19, 20, 21, 22, 23, 24, 25, 26, 27,
                  28, 29, 30, 31, 32, 33, 34, 35, 36, 37, 38, 39, 40]"
  by (simp add: grid_prices_def)

lemma prod_loop_unroll:
  "prod_loop ai c baseProxy eventAdMult eventPriceMult price ad 0 bb =
     foldl (improve_by ai c baseProxy eventAdMult eventPriceMult) bb
       (map (\<lambda>prd. \<lparr> p_price = price, p_adSpend = ad, p_production = prd \<rparr>) grid_prods)"
  by (simp add: prod_loop.simps grid_prods_list improve_as_improve_by)

lemma ad_loop_unroll:
  "ad_loop ai c baseProxy eventAdMult eventPriceMult price 0 bb =
     foldl (improve_by ai c baseProxy eventAdMult eventPriceMult) bb
       (concat (map (\<lambda>ad.
            map (\<lambda>prd. \<lparr> p_price = price, p_adSpend = ad, p_production = prd \<rparr>) grid_prods)
            grid_ads))"
  by (simp add: ad_loop.simps prod_loop_unroll grid_ads_list)

lemma price_loop_unroll:
  "price_loop ai c baseProxy eventAdMult eventPriceMult 9 bb =
     foldl (improve_by ai c baseProxy eventAdMult eventPriceMult) bb grid"
  by (simp add: price_loop.simps ad_loop_unroll grid_def grid_prices_list)

lemma suggest_as_foldl:
  "suggest ai c baseProxy eventAdMult eventPriceMult =
     snd (foldl (improve_by ai c baseProxy eventAdMult eventPriceMult)
            (- (10 ^ 18), \<lparr> p_price = 20, p_adSpend = 1000, p_production = 50 \<rparr>) grid)"
  by (simp add: suggest_def Let_def price_loop_unroll)

text \<open>The fold returns the first plan of the list whose profit is maximal, when some plan
  beats the initial \<open>bestProfit\<close>, and the initial pair otherwise.\<close>

lemma foldl_improve_none:
  "\<forall>p\<in>set ps. plan_profit ai c baseProxy eventAdMult eventPriceMult p \<le> fst bb \<Longrightarrow>
   foldl (improve_by ai c baseProxy eventAdMult eventPriceMult) bb ps = bb"
  by (induction ps) (simp_all add: improve_by_eq)

lemma foldl_improve_first_best:
  assumes "\<exists>p\<in>set ps. fst bb < plan_profit ai c baseProxy eventAdMult eventPriceMult p"
  shows "\<exists>pre r post. ps = pre @ r # post
     \<and> foldl (improve_by ai c baseProxy eventAdMult eventPriceMult) bb ps
         = (plan_profit ai c baseProxy eventAdMult eventPriceMult r, r)
     \<and> (\<forall>p\<in>set pre. plan_profit ai c baseProxy eventAdMult eventPriceMult p
                       < plan_profit ai c baseProxy eventAdMult eventPriceMult r)
     \<and> (\<forall>p\<in>set post. plan_profit ai c baseProxy eventAdMult eventPriceMult p
                       \<le> plan_profit ai c baseProxy eventAdMult eventPriceMult r)"
  using assms
proof (induction ps rule: rev_induct)
  case Nil
  then show ?case by simp
next
  case (snoc q qs)
  let ?pf = "plan_profit ai c baseProxy eventAdMult eventPriceMult"
  let ?st = "improve_by ai c baseProxy eventAdMult eventPriceMult"
  show ?case
  proof (cases "\<exists>p\<in>set qs. fst bb < ?pf p")
    case True
    from snoc.IH [OF True] obtain pre r post where d: "qs = pre @ r # post"
      and f: "foldl ?st bb qs = (?pf r, r)"
      and lt: "\<forall>p\<in>set pre. ?pf p < ?pf r" and le: "\<forall>p\<in>set post. ?pf p \<le> ?pf r"
      by blast
    show ?thesis
    proof (cases "?pf r < ?pf q")
      case True
      have "\<forall>p\<in>set qs. ?pf p < ?pf q"
        using d lt le True by fastforce
      moreover have "foldl ?st bb (qs @ [q]) = (?pf q, q)"
        using f True by (simp add: improve_by_eq)
      ultimately show ?thesis
        by (intro exI [of _ qs] exI [of _ q] exI [of _ "[]"]) simp
    next
      case False
      have "foldl ?st bb (qs @ [q]) = (?pf r, r)"
        using f False by (simp add: improve_by_eq)
      moreover have "\<forall>p\<in>set (post @ [q]). ?pf p \<le> ?pf r"
        using le False by auto
      ultimately show ?thesis
        using d lt by (intro exI [of _ pre] exI [of _ r] exI [of _ "post @ [q]"]) simp
    qed
  next
    case False
    then have all: "\<forall>p\<in>set qs. ?pf p \<le> fst bb" by fastforce
    then have f: "foldl ?st bb qs = bb" by (rule foldl_improve_none)
    have q: "fst bb < ?pf q" using snoc.prems False by auto
    have "\<forall>p\<in>set qs. ?pf p < ?pf q" using all q by fastforce
    moreover have "foldl ?st bb (qs @ [q]) = (?pf q, q)"
      using f q by (simp add: improve_by_eq)
    ultimately show ?thesis
      by (intro exI [of _ qs] exI [of _ q] exI [of _ "[]"]) simp
  qed
qed

text \<open>The list \<open>grid\<close> is in the order \<open>enumerated_before\<close>.\<close>

lemma sorted_wrt_concat_map:
  assumes "sorted_wrt (\<lambda>x y. \<forall>a\<in>set (f x). \<forall>b\<in>set (f y). R a b) xs"
    and "\<forall>x\<in>set xs. sorted_wrt R (f x)"
  shows "sorted_wrt R (concat (map f xs))"
  using assms by (induction xs) (auto simp: sorted_wrt_append)

lemma grid_prods_sorted: "sorted_wrt (<) grid_prods"
  unfolding grid_prods_def sorted_wrt_map
  by (rule sorted_wrt_mono_rel [OF _ sorted_wrt_upto]) simp

lemma grid_ads_sorted: "sorted_wrt (<) grid_ads"
  unfolding grid_ads_def sorted_wrt_map
  by (rule sorted_wrt_mono_rel [OF _ sorted_wrt_upto]) simp

lemma grid_prices_sorted: "sorted_wrt (<) grid_prices"
  unfolding grid_prices_def sorted_wrt_map
  by (rule sorted_wrt_mono_rel [OF _ sorted_wrt_upto]) simp

lemma grid_enumeration_order: "sorted_wrt enumerated_before grid"
  unfolding grid_def
proof (rule sorted_wrt_concat_map)
  show "sorted_wrt (\<lambda>x y. \<forall>a\<in>set (concat (map (\<lambda>ad.
            map (\<lambda>prd. \<lparr> p_price = x, p_adSpend = ad, p_production = prd \<rparr>) grid_prods)
            grid_ads)). \<forall>b\<in>set (concat (map (\<lambda>ad.
            map (\<lambda>prd. \<lparr> p_price = y, p_adSpend = ad, p_production = prd \<rparr>) grid_prods)
            grid_ads)). enumerated_before a b) grid_prices"
    by (rule sorted_wrt_mono_rel [OF _ grid_prices_sorted])
      (auto simp: enumerated_before_def)
  show "\<forall>x\<in>set grid_prices. sorted_wrt enumerated_before (concat (map (\<lambda>ad.
            map (\<lambda>prd. \<lparr> p_price = x, p_adSpend = ad, p_production = prd \<rparr>) grid_prods)
            grid_ads))"
  proof
    fix x
    show "sorted_wrt enumerated_before (concat (map (\<lambda>ad.
            map (\<lambda>prd. \<lparr> p_price = x, p_adSpend = ad, p_production = prd \<rparr>) grid_prods)
            grid_ads))"
    proof (rule sorted_wrt_concat_map)
      show "sorted_wrt (\<lambda>u v. \<forall>a\<in>set (map (\<lambda>prd.
                \<lparr> p_price = x, p_adSpend = u, p_production = prd \<rparr>) grid_prods).
              \<forall>b\<in>set (map (\<lambda>prd.
                \<lparr> p_price = x, p_adSpend = v, p_production = prd \<rparr>) grid_prods).
              enumerated_before a b) grid_ads"
        by (rule sorted_wrt_mono_rel [OF _ grid_ads_sorted])
          (auto simp: enumerated_before_def)
      show "\<forall>u\<in>set grid_ads. sorted_wrt enumerated_before (map (\<lambda>prd.
                \<lparr> p_price = x, p_adSpend = u, p_production = prd \<rparr>) grid_prods)"
        unfolding sorted_wrt_map
        by (auto intro!: sorted_wrt_mono_rel [OF _ grid_prods_sorted]
            simp: enumerated_before_def)
    qed
  qed
qed

lemma grid_in_box: "p \<in> set grid \<Longrightarrow> in_grid_box p"
  by (auto simp: grid_def grid_prices_def grid_ads_def grid_prods_def in_grid_box_def
      simp del: upto_rec_numeral)

lemma grid_member:
  "9 \<le> i \<Longrightarrow> i \<le> 40 \<Longrightarrow> 0 \<le> k \<Longrightarrow> k \<le> 16 \<Longrightarrow> 0 \<le> j \<Longrightarrow> j \<le> 12 \<Longrightarrow>
   \<lparr> p_price = real_of_int i, p_adSpend = 500 * real_of_int k, p_production = 10 * j \<rparr>
     \<in> set grid"
  apply (simp add: grid_def grid_prices_def grid_ads_def grid_prods_def del: upto_rec_numeral)
  apply (rule bexI [of _ i], rule bexI [of _ k], rule image_eqI [of _ _ j])
     apply simp_all
  done

lemma enumerated_before_irrefl: "\<not> enumerated_before p p"
  by (simp add: enumerated_before_def)

lemma enumerated_before_asym: "enumerated_before p q \<Longrightarrow> \<not> enumerated_before q p"
  by (auto simp: enumerated_before_def)

lemma improve_keeps_incumbent:
  "grid_profit ai c baseProxy eventAdMult eventPriceMult price ad prd \<le> fst bb \<Longrightarrow>
   improve ai c baseProxy eventAdMult eventPriceMult price ad prd bb = bb"
  by (simp add: improve_def Let_def)

lemma c_round_ge: "real_of_int k \<le> x \<Longrightarrow> 0 \<le> k \<Longrightarrow> k \<le> c_round x"
  unfolding c_round_def by (simp add: le_floor_iff)

lemma c_round_le: "0 \<le> x \<Longrightarrow> x \<le> real_of_int k \<Longrightarrow> c_round x \<le> k"
  unfolding c_round_def by (simp add: floor_le_iff)

lemma canSell_capped:
  assumes "real_of_int a \<le> x" and "0 \<le> a" and "x \<le> 2147483647"
  shows "min (int_cast (c_round x)) a = a"
proof -
  have lo: "a \<le> c_round x" using assms(1,2) by (rule c_round_ge)
  have "0 \<le> x" using assms(1,2) by linarith
  then have "c_round x \<le> 2147483647"
    by (rule c_round_le) (use assms(3) in simp)
  then have "int_cast (c_round x) = c_round x"
    using lo assms(2) by (intro int_cast_in_range) linarith+
  then show ?thesis using lo by simp
qed

text \<open>
  C6 (amended). If some grid point's profit exceeds the initial \<open>bestProfit = -1e18\<close>, then
  \<open>suggest\<close> returns a grid point of maximal profit, and whenever two grid points have equal
  profit, it does not return the one enumerated later (price ascending, then ad spend
  ascending, then production ascending). If no grid point's profit exceeds \<open>-1e18\<close>, then
  \<open>suggest\<close> returns its initial plan \<open>(20, 1000, 50)\<close>. At every step, a point whose profit
  does not exceed the incumbent's leaves \<open>(bestProfit, best)\<close> unchanged.
\<close>

theorem suggest_first_best_wins:
  "((\<exists>p\<in>set grid. - (10 ^ 18) < plan_profit ai c baseProxy eventAdMult eventPriceMult p) \<longrightarrow>
      suggest ai c baseProxy eventAdMult eventPriceMult \<in> set grid
      \<and> (\<forall>p\<in>set grid. plan_profit ai c baseProxy eventAdMult eventPriceMult p
            \<le> plan_profit ai c baseProxy eventAdMult eventPriceMult
                 (suggest ai c baseProxy eventAdMult eventPriceMult))
      \<and> (\<forall>p\<in>set grid. \<forall>q\<in>set grid.
            enumerated_before p q
            \<and> plan_profit ai c baseProxy eventAdMult eventPriceMult p
                = plan_profit ai c baseProxy eventAdMult eventPriceMult q
            \<longrightarrow> suggest ai c baseProxy eventAdMult eventPriceMult \<noteq> q))
   \<and> ((\<forall>p\<in>set grid. plan_profit ai c baseProxy eventAdMult eventPriceMult p \<le> - (10 ^ 18)) \<longrightarrow>
      suggest ai c baseProxy eventAdMult eventPriceMult
        = \<lparr> p_price = 20, p_adSpend = 1000, p_production = 50 \<rparr>)
   \<and> (\<forall>price ad prd bb.
         grid_profit ai c baseProxy eventAdMult eventPriceMult price ad prd \<le> fst bb
         \<longrightarrow> improve ai c baseProxy eventAdMult eventPriceMult price ad prd bb = bb)"
proof (intro conjI impI)
  let ?pf = "plan_profit ai c baseProxy eventAdMult eventPriceMult"
  let ?s = "suggest ai c baseProxy eventAdMult eventPriceMult"
  let ?init = "(- (10 ^ 18) :: real, \<lparr> p_price = 20, p_adSpend = 1000, p_production = 50 \<rparr>)"
  show "\<forall>price ad prd bb.
         grid_profit ai c baseProxy eventAdMult eventPriceMult price ad prd \<le> fst bb
         \<longrightarrow> improve ai c baseProxy eventAdMult eventPriceMult price ad prd bb = bb"
    using improve_keeps_incumbent by blast
  {
    assume "\<forall>p\<in>set grid. ?pf p \<le> - (10 ^ 18)"
    then have "\<forall>p\<in>set grid. ?pf p \<le> fst ?init" by simp
    from foldl_improve_none [OF this]
    show "?s = \<lparr> p_price = 20, p_adSpend = 1000, p_production = 50 \<rparr>"
      by (simp only: suggest_as_foldl snd_conv)
  }
  assume "\<exists>p\<in>set grid. - (10 ^ 18) < ?pf p"
  then have "\<exists>p\<in>set grid. fst ?init < ?pf p" by simp
  from foldl_improve_first_best [OF this] obtain pre r post
    where d: "grid = pre @ r # post"
      and f: "foldl (improve_by ai c baseProxy eventAdMult eventPriceMult) ?init grid = (?pf r, r)"
      and lt: "\<forall>p\<in>set pre. ?pf p < ?pf r" and le: "\<forall>p\<in>set post. ?pf p \<le> ?pf r"
    by blast
  have s: "?s = r" by (simp only: suggest_as_foldl f snd_conv)
  have sg: "set grid = set pre \<union> {r} \<union> set post" by (simp add: d)
  show "?s \<in> set grid" by (simp add: sg s)
  show "\<forall>p\<in>set grid. ?pf p \<le> ?pf ?s"
    unfolding sg s using lt le by fastforce
  have "sorted_wrt enumerated_before (pre @ r # post)"
    using grid_enumeration_order by (simp only: d)
  then have after: "\<forall>p\<in>set post. enumerated_before r p"
    by (simp add: sorted_wrt_append)
  show "\<forall>p\<in>set grid. \<forall>q\<in>set grid.
      enumerated_before p q \<and> ?pf p = ?pf q \<longrightarrow> ?s \<noteq> q"
  proof (intro ballI impI notI)
    fix p q
    assume p: "p \<in> set grid" and pq: "enumerated_before p q \<and> ?pf p = ?pf q" and q: "?s = q"
    have pr: "enumerated_before p r" "?pf p = ?pf r" using pq q s by simp_all
    from p sg consider "p \<in> set pre" | "p = r" | "p \<in> set post" by auto
    then show False
    proof cases
      case 1
      then show False using lt pr(2) by auto
    next
      case 2
      then show False using pr(1) enumerated_before_irrefl by simp
    next
      case 3
      then show False using after pr(1) enumerated_before_asym by blast
    qed
  qed
qed

text \<open>At the state of \<open>main\<close> before the first week the grid points \<open>(9, 0, 0)\<close> and
  \<open>(34, 1000, 0)\<close> both have profit \<open>-840\<close>; for the company with fixed cost \<open>1e30\<close> every
  profit is below \<open>-1e18\<close>.\<close>

lemma plan_profit_9_0_0:
  "plan_profit AIAdvisor_init Company_init 50 0 0
     \<lparr> p_price = 9, p_adSpend = 0, p_production = 0 \<rparr> = - 840"
  by (simp add: plan_profit_def grid_profit_def predict_def c_round_def int_cast_def log1p_def
      AIAdvisor_init_def Company_init_def Let_def)

lemma plan_profit_34_1000_0:
  "plan_profit AIAdvisor_init Company_init 50 0 0
     \<lparr> p_price = 34, p_adSpend = 1000, p_production = 0 \<rparr> = - 840"
proof -
  have dh: "predict AIAdvisor_init 34 1000 50 40 0 0 = 35 + 8 * ln 1001"
    using ln_1001_rough(1) by (simp add: predict_def AIAdvisor_init_def log1p_def Let_def)
  have can: "min (int_cast (c_round (35 + 8 * ln 1001))) 40 = 40"
    by (rule canSell_capped) (use ln_1001_rough in simp_all)
  show ?thesis
    by (simp add: plan_profit_def grid_profit_def Company_init_def Let_def dh can)
qed

lemma grid_9_0_0: "\<lparr> p_price = 9, p_adSpend = 0, p_production = 0 \<rparr> \<in> set grid"
  using grid_member [of 9 0 0] by simp

lemma grid_34_1000_0: "\<lparr> p_price = 34, p_adSpend = 1000, p_production = 0 \<rparr> \<in> set grid"
  using grid_member [of 34 2 0] by simp

lemma costly_profit_low:
  assumes "in_grid_box p"
  shows "plan_profit ai Company_costly baseProxy eventAdMult eventPriceMult p \<le> - (10 ^ 18)"
proof -
  let ?dh = "predict ai (p_price p) (p_adSpend p) baseProxy (40 + p_production p)
               eventAdMult eventPriceMult"
  let ?can = "min (int_cast (c_round ?dh)) (40 + p_production p)"
  have box: "9 \<le> p_price p" "p_price p \<le> 40" "0 \<le> p_adSpend p"
    "0 \<le> p_production p" "p_production p \<le> 120"
    using assms by (simp_all add: in_grid_box_def)
  have "?can \<le> 160" using box by simp
  then have can: "real_of_int ?can \<le> 160" by linarith
  have rev: "real_of_int ?can * p_price p \<le> 6400"
  proof (cases "0 \<le> real_of_int ?can")
    case True
    have "real_of_int ?can * p_price p \<le> 160 * 40"
      by (rule mult_mono [OF can box(2)]) (use True box in simp_all)
    then show ?thesis by simp
  next
    case False
    then have "real_of_int ?can \<le> 0" by linarith
    moreover have "0 \<le> p_price p" using box(1) by linarith
    ultimately have "real_of_int ?can * p_price p \<le> 0"
      by (rule mult_nonpos_nonneg)
    then show ?thesis by linarith
  qed
  have cost: "0 \<le> real_of_int (p_production p) * 8 + p_adSpend p" using box by simp
  have "plan_profit ai Company_costly baseProxy eventAdMult eventPriceMult p
      = real_of_int ?can * p_price p
        - (real_of_int (p_production p) * 8 + p_adSpend p + 10 ^ 30)"
    by (simp add: plan_profit_def grid_profit_def Company_costly_def Company_init_def Let_def)
  also have "\<dots> \<le> 6400 - 10 ^ 30" using rev cost by linarith
  also have "\<dots> \<le> - (10 ^ 18 :: real)" by simp
  finally show ?thesis .
qed

theorem suggest_first_best_wins_witness:
  "\<lparr> p_price = 9, p_adSpend = 0, p_production = 0 \<rparr> \<in> set grid
   \<and> \<lparr> p_price = 34, p_adSpend = 1000, p_production = 0 \<rparr> \<in> set grid
   \<and> enumerated_before \<lparr> p_price = 9, p_adSpend = 0, p_production = 0 \<rparr>
        \<lparr> p_price = 34, p_adSpend = 1000, p_production = 0 \<rparr>
   \<and> plan_profit AIAdvisor_init Company_init 50 0 0
        \<lparr> p_price = 9, p_adSpend = 0, p_production = 0 \<rparr> = - 840
   \<and> plan_profit AIAdvisor_init Company_init 50 0 0
        \<lparr> p_price = 34, p_adSpend = 1000, p_production = 0 \<rparr> = - 840
   \<and> suggest AIAdvisor_init Company_init 50 0 0
        \<noteq> \<lparr> p_price = 34, p_adSpend = 1000, p_production = 0 \<rparr>
   \<and> suggest AIAdvisor_init Company_init 50 0 0 \<in> set grid
   \<and> - 840 \<le> plan_profit AIAdvisor_init Company_init 50 0 0
                 (suggest AIAdvisor_init Company_init 50 0 0)
   \<and> suggest AIAdvisor_init Company_costly 50 0 0
        = \<lparr> p_price = 20, p_adSpend = 1000, p_production = 50 \<rparr>"
proof -
  have h: "\<exists>p\<in>set grid. - (10 ^ 18) < plan_profit AIAdvisor_init Company_init 50 0 0 p"
    by (rule bexI [OF _ grid_9_0_0]) (simp add: plan_profit_9_0_0)
  have before: "enumerated_before \<lparr> p_price = 9, p_adSpend = 0, p_production = 0 \<rparr>
        \<lparr> p_price = 34, p_adSpend = 1000, p_production = 0 \<rparr>"
    by (simp add: enumerated_before_def)
  have low: "\<forall>p\<in>set grid. plan_profit AIAdvisor_init Company_costly 50 0 0 p \<le> - (10 ^ 18)"
    using costly_profit_low grid_in_box by blast
  have first: "suggest AIAdvisor_init Company_init 50 0 0 \<in> set grid
      \<and> (\<forall>p\<in>set grid. plan_profit AIAdvisor_init Company_init 50 0 0 p
            \<le> plan_profit AIAdvisor_init Company_init 50 0 0
                 (suggest AIAdvisor_init Company_init 50 0 0))
      \<and> (\<forall>p\<in>set grid. \<forall>q\<in>set grid.
            enumerated_before p q
            \<and> plan_profit AIAdvisor_init Company_init 50 0 0 p
                = plan_profit AIAdvisor_init Company_init 50 0 0 q
            \<longrightarrow> suggest AIAdvisor_init Company_init 50 0 0 \<noteq> q)"
    using suggest_first_best_wins [of AIAdvisor_init Company_init 50 0 0] h by blast
  have second: "suggest AIAdvisor_init Company_costly 50 0 0
        = \<lparr> p_price = 20, p_adSpend = 1000, p_production = 50 \<rparr>"
    using suggest_first_best_wins [of AIAdvisor_init Company_costly 50 0 0] low by blast
  have neq: "suggest AIAdvisor_init Company_init 50 0 0
        \<noteq> \<lparr> p_price = 34, p_adSpend = 1000, p_production = 0 \<rparr>"
    using first grid_9_0_0 grid_34_1000_0 before plan_profit_9_0_0 plan_profit_34_1000_0
    by (metis (no_types, lifting))
  have "- 840 \<le> plan_profit AIAdvisor_init Company_init 50 0 0
                 (suggest AIAdvisor_init Company_init 50 0 0)"
    using first grid_9_0_0 plan_profit_9_0_0 by metis
  then show ?thesis
    using first second neq before grid_9_0_0 grid_34_1000_0 plan_profit_9_0_0
      plan_profit_34_1000_0
    by blast
qed

text \<open>Without the first proviso the claim fails: for the company with fixed cost \<open>1e30\<close>
  \<open>suggest\<close> returns its initial plan \<open>(20, 1000, 50)\<close>, although the grid point \<open>(10, 0, 0)\<close>,
  enumerated earlier, has the same profit \<open>400 - 1e30\<close>.\<close>

lemma costly_suggest:
  "suggest AIAdvisor_init Company_costly 50 0 0
     = \<lparr> p_price = 20, p_adSpend = 1000, p_production = 50 \<rparr>"
proof -
  have "\<forall>p\<in>set grid. plan_profit AIAdvisor_init Company_costly 50 0 0 p
          \<le> fst (- (10 ^ 18) :: real, \<lparr> p_price = 20, p_adSpend = 1000, p_production = 50 \<rparr>)"
    using costly_profit_low grid_in_box by simp
  from foldl_improve_none [OF this] show ?thesis
    by (simp only: suggest_as_foldl snd_conv)
qed

lemma costly_profit_10_0_0:
  "plan_profit AIAdvisor_init Company_costly 50 0 0
     \<lparr> p_price = 10, p_adSpend = 0, p_production = 0 \<rparr> = 400 - 10 ^ 30"
  by (simp add: plan_profit_def grid_profit_def predict_def c_round_def int_cast_def log1p_def
      AIAdvisor_init_def Company_costly_def Company_init_def Let_def)

lemma costly_profit_20_1000_50:
  "plan_profit AIAdvisor_init Company_costly 50 0 0
     \<lparr> p_price = 20, p_adSpend = 1000, p_production = 50 \<rparr> = 400 - 10 ^ 30"
proof -
  have dh: "predict AIAdvisor_init 20 1000 50 90 0 0 = 54 + 8 * ln 1001"
    using ln_1001_rough(1) by (simp add: predict_def AIAdvisor_init_def log1p_def Let_def)
  have can: "min (int_cast (c_round (54 + 8 * ln 1001))) 90 = 90"
    by (rule canSell_capped) (use ln_1001_rough in simp_all)
  show ?thesis
    by (simp add: plan_profit_def grid_profit_def Company_costly_def Company_init_def Let_def
        dh can)
qed

theorem suggest_returns_later_tied_point:
  "\<lparr> p_price = 10, p_adSpend = 0, p_production = 0 \<rparr> \<in> set grid
   \<and> \<lparr> p_price = 20, p_adSpend = 1000, p_production = 50 \<rparr> \<in> set grid
   \<and> enumerated_before \<lparr> p_price = 10, p_adSpend = 0, p_production = 0 \<rparr>
        \<lparr> p_price = 20, p_adSpend = 1000, p_production = 50 \<rparr>
   \<and> plan_profit AIAdvisor_init Company_costly 50 0 0
        \<lparr> p_price = 10, p_adSpend = 0, p_production = 0 \<rparr>
       = plan_profit AIAdvisor_init Company_costly 50 0 0
           \<lparr> p_price = 20, p_adSpend = 1000, p_production = 50 \<rparr>
   \<and> suggest AIAdvisor_init Company_costly 50 0 0
       = \<lparr> p_price = 20, p_adSpend = 1000, p_production = 50 \<rparr>"
proof -
  have "\<lparr> p_price = 10, p_adSpend = 0, p_production = 0 \<rparr> \<in> set grid"
    using grid_member [of 10 0 0] by simp
  moreover have "\<lparr> p_price = 20, p_adSpend = 1000, p_production = 50 \<rparr> \<in> set grid"
    using grid_member [of 20 2 5] by simp
  ultimately show ?thesis
    by (simp add: costly_profit_10_0_0 costly_profit_20_1000_50 costly_suggest
        enumerated_before_def)
qed

end
